theory Spec2Isabelle
  imports Complex_Main
begin

chapter \<open>The hover preview of a media card\<close>

text \<open>
  Two components are embedded: the function component \<open>CardPopup\<close>
  (ui/src/Components/CardList/CardPopup.jsx) and the class component \<open>Card\<close>
  (the part of web_ui/src/actions/types.js that starts at its line 52). Each handler, effect
  body and continuation of an \<open>async\<close> function is one HOL function on the component's
  state; the browser (timers, promises, the DOM) is an explicit runtime value that hands
  the events to the component one at a time, as the event loop does.
\<close>

section \<open>JavaScript values\<close>

text \<open>
  The decoded JSON payload of the metadata endpoint, and the values a state hook holds.
  \<open>Undefined\<close> is what reading a missing property gives.
\<close>

datatype jsval =
    Undefined
  | Null
  | Bool bool
  | Num real
  | Str string
  | Arr "jsval list"
  | Obj "(string \<times> jsval) list"

datatype js_error = TypeError | SyntaxError

text \<open>The conversion to a boolean that \<open>if (v)\<close> performs.\<close>

fun truthy :: "jsval \<Rightarrow> bool" where
  "truthy Undefined = False"
| "truthy Null = False"
| "truthy (Bool b) = b"
| "truthy (Num n) = (n \<noteq> 0)"
| "truthy (Str s) = (s \<noteq> [])"
| "truthy (Arr xs) = True"
| "truthy (Obj kvs) = True"

text \<open>A string that may also be \<open>null\<close> or \<open>undefined\<close> (a property that is absent).\<close>

datatype nullable_string = StringUndefined | StringNull | StringValue string

subsection \<open>Numbers as strings\<close>

definition digit :: "nat \<Rightarrow> char" where
  "digit n = ''0123456789'' ! n"

text \<open>
  \<open>String(n)\<close> for a non-negative integer below \<open>10^21\<close>: its decimal digits, no
  leading zero.
\<close>

fun numToString :: "nat \<Rightarrow> string" where
  "numToString n =
     (if n < 10 then [digit n] else numToString (n div 10) @ [digit (n mod 10)])"

declare numToString.simps [simp del]

text \<open>
  \<open>s.slice(-k)\<close>: the last \<open>k\<close> characters, the whole string when it is shorter
  (the start index is \<open>max (length - k) 0\<close>, which is what subtraction on \<open>nat\<close>
  gives).
\<close>

definition slice_last :: "string \<Rightarrow> nat \<Rightarrow> string" where
  "slice_last s k = drop (length s - k) s"

subsection \<open>Property reads\<close>

text \<open>
  \<open>v.k\<close> for the own data properties of a decoded JSON value. Reading a property of
  \<open>undefined\<close> or \<open>null\<close> throws; a property that is not there is \<open>undefined\<close>.
  The keys read below (\<open>error\<close>, \<open>seasons\<close>, \<open>episodes\<close>, \<open>versions\<close>) are not
  inherited by arrays, strings, numbers or booleans.
\<close>

fun getProp :: "jsval \<Rightarrow> string \<Rightarrow> js_error + jsval" where
  "getProp Undefined k = Inl TypeError"
| "getProp Null k = Inl TypeError"
| "getProp (Obj kvs) k = Inr (case map_of kvs k of None \<Rightarrow> Undefined | Some v \<Rightarrow> v)"
| "getProp v k = Inr Undefined"

text \<open>\<open>v[i]\<close> for a literal index: an array element, a character, or the property named by the index.\<close>

fun getIndex :: "jsval \<Rightarrow> nat \<Rightarrow> js_error + jsval" where
  "getIndex Undefined i = Inl TypeError"
| "getIndex Null i = Inl TypeError"
| "getIndex (Arr xs) i = Inr (if i < length xs then xs ! i else Undefined)"
| "getIndex (Str s) i = Inr (if i < length s then Str [s ! i] else Undefined)"
| "getIndex (Obj kvs) i = getProp (Obj kvs) (numToString i)"
| "getIndex v i = Inr Undefined"

section \<open>CardPopup\<close>

subsection \<open>Props and state\<close>

text \<open>
  \<open>props.data\<close>. The genre list is an array object shared with whoever passed the
  props, so the record holds its address and the arrays live in a store.
\<close>

type_synonym addr = nat

type_synonym store = "addr \<Rightarrow> string list option"

record media_data =
  media_id :: nat
  name :: string
  description :: nullable_string
  genres :: addr
  year :: nat
  duration :: nat

record popup_props =
  data :: media_data
  token :: string

text \<open>The three state hooks, with their initial values.\<close>

record popup_state =
  overflowing :: bool
  mediaVersions :: jsval
  direction :: string

definition initial_popup_state :: popup_state where
  "initial_popup_state =
     \<lparr>overflowing = False, mediaVersions = Arr [], direction = ''card-popup-right''\<rparr>"

subsection \<open>The placement effect\<close>

record rect =
  x :: real
  width :: real

text \<open>
  The body of the first effect, given what \<open>getBoundingClientRect\<close> measured and
  \<open>window.innerWidth\<close>.
\<close>

definition placementEffect :: "rect \<Rightarrow> real \<Rightarrow> popup_state \<Rightarrow> popup_state" where
  "placementEffect r innerWidth st =
     (let overflowing' = (x r + width r > innerWidth - 5) in
      if \<not> overflowing' then st
      else st\<lparr>overflowing := True, direction := ''card-popup-left''\<rparr>)"

subsection \<open>The fetch effect\<close>

text \<open>What \<open>fetch\<close> resolved to: the status and the body as \<open>res.json()\<close> decodes
  it, \<open>None\<close> when the body is not JSON and the decoding rejects.\<close>

record response =
  status :: nat
  body :: "jsval option"

text \<open>
  The async function after \<open>await fetch\<close>. \<open>Inr None\<close> is a \<open>return\<close> before any
  setter is called, \<open>Inr (Some v)\<close> is \<open>setMediaVersions(v)\<close>, \<open>Inl e\<close> is a throw
  (the promise of the async function rejects and nobody looks at it).
\<close>

definition fetchContinuation :: "response \<Rightarrow> js_error + jsval option" where
  "fetchContinuation res =
     (if status res \<noteq> 200 then Inr None
      else case body res of
        None \<Rightarrow> Inl SyntaxError
      | Some payload \<Rightarrow>
         (case getProp payload ''error'' of
            Inl e \<Rightarrow> Inl e
          | Inr err \<Rightarrow>
             if truthy err then Inr None
             else (case getProp payload ''seasons'' of
                Inl e \<Rightarrow> Inl e
              | Inr seasons \<Rightarrow>
                 if truthy seasons then
                   (case getIndex seasons 0 of
                      Inl e \<Rightarrow> Inl e
                    | Inr season \<Rightarrow>
                       (case getProp season ''episodes'' of
                          Inl e \<Rightarrow> Inl e
                        | Inr episodes \<Rightarrow>
                           (case getIndex episodes 0 of
                              Inl e \<Rightarrow> Inl e
                            | Inr episode \<Rightarrow>
                               (case getProp episode ''versions'' of
                                  Inl e \<Rightarrow> Inl e
                                | Inr versions \<Rightarrow> Inr (Some versions)))))
                 else (case getProp payload ''versions'' of
                         Inl e \<Rightarrow> Inl e
                       | Inr versions \<Rightarrow> Inr (Some versions)))))"

text \<open>
  A mounted popup: its current props, its hooks, the requests the fetch effect has issued
  and that have not been answered (the item id in the URL and the token in the header),
  and whether React still has it mounted.
\<close>

record popup_instance =
  props :: popup_props
  hooks :: popup_state
  in_flight :: "(nat \<times> string) list"
  mounted :: bool

text \<open>The second effect up to its first \<open>await\<close>: the request leaves.\<close>

definition fetchEffect :: "popup_instance \<Rightarrow> popup_instance" where
  "fetchEffect p =
     p\<lparr>in_flight := in_flight p @ [(media_id (data (props p)), token (props p))]\<rparr>"

text \<open>
  A state setter of a component that React has unmounted does nothing; on a mounted one
  it replaces the value.
\<close>

definition setMediaVersions :: "jsval \<Rightarrow> popup_instance \<Rightarrow> popup_instance" where
  "setMediaVersions v p =
     (if mounted p then p\<lparr>hooks := (hooks p)\<lparr>mediaVersions := v\<rparr>\<rparr> else p)"

text \<open>
  The response to a request arrives and the async function resumes. Nothing in it looks
  at the props of the moment: the effect has no cleanup and no flag.
\<close>

definition responseArrives :: "nat \<times> string \<Rightarrow> response \<Rightarrow> popup_instance \<Rightarrow> popup_instance" where
  "responseArrives req res p =
     (if req \<notin> set (in_flight p) then p
      else let p' = p\<lparr>in_flight := remove1 req (in_flight p)\<rparr> in
        case fetchContinuation res of
          Inr (Some v) \<Rightarrow> setMediaVersions v p'
        | Inr None \<Rightarrow> p'
        | Inl e \<Rightarrow> p')"

text \<open>
  Mounting runs both effects. (The placement effect runs once more after it has set
  \<open>overflowing\<close>; it can then only set the same two values again.) A later render with
  other props runs the fetch effect again when \<open>id\<close> or \<open>token\<close> differ from the
  previous render (its dependency list).
\<close>

definition mountPopup :: "popup_props \<Rightarrow> rect \<Rightarrow> real \<Rightarrow> popup_instance" where
  "mountPopup pr r innerWidth =
     fetchEffect
       \<lparr>props = pr, hooks = placementEffect r innerWidth initial_popup_state,
        in_flight = [], mounted = True\<rparr>"

definition propsChange :: "popup_props \<Rightarrow> popup_instance \<Rightarrow> popup_instance" where
  "propsChange pr p =
     (if \<not> mounted p then p
      else if media_id (data pr) \<noteq> media_id (data (props p)) \<or> token pr \<noteq> token (props p)
        then fetchEffect (p\<lparr>props := pr\<rparr>)
        else p\<lparr>props := pr\<rparr>)"

definition unmountPopup :: "popup_instance \<Rightarrow> popup_instance" where
  "unmountPopup p = p\<lparr>mounted := False\<rparr>"

datatype popup_event =
    PropsChange popup_props
  | ResponseArrives "nat \<times> string" response
  | Unmount

fun popup_step :: "popup_instance \<Rightarrow> popup_event \<Rightarrow> popup_instance" where
  "popup_step p (PropsChange pr) = propsChange pr p"
| "popup_step p (ResponseArrives req res) = responseArrives req res p"
| "popup_step p Unmount = unmountPopup p"

definition popup_run :: "popup_instance \<Rightarrow> popup_event list \<Rightarrow> popup_instance" where
  "popup_run = foldl popup_step"

text \<open>
  The events that leave a request unanswered and its popup mounted: anything but the
  unmount and the arrival of the response to that very request.
\<close>

fun keeps_request :: "nat \<times> string \<Rightarrow> popup_event \<Rightarrow> bool" where
  "keeps_request req (PropsChange pr) = True"
| "keeps_request req (ResponseArrives req' res) = (req' \<noteq> req)"
| "keeps_request req Unmount = False"

subsection \<open>Rendering\<close>

text \<open>The \<open>length\<close> object of the render body.\<close>

record length_obj =
  hh :: string
  mm :: string
  ss :: string

definition length_of :: "nat \<Rightarrow> length_obj" where
  "length_of d =
     \<lparr>hh = slice_last (''0'' @ numToString (d div 3600)) 2,
      mm = slice_last (''0'' @ numToString ((d mod 3600) div 60)) 2,
      ss = slice_last (''0'' @ numToString ((d mod 3600) mod 60)) 2\<rparr>"

text \<open>The paragraph \<open>{length.hh}:{length.mm}:{length.ss}\<close> of the footer.\<close>

definition lengthParagraph :: "length_obj \<Rightarrow> string" where
  "lengthParagraph len = hh len @ '':'' @ mm len @ '':'' @ ss len"

text \<open>
  The specification's field of the length: a number written with two decimal digits,
  padded with a zero on the left and cut to its two lowest digits.
\<close>

definition spec_two_digits :: "nat \<Rightarrow> string" where
  "spec_two_digits n = [digit ((n div 10) mod 10), digit (n mod 10)]"

text \<open>The paragraph of the description section.\<close>

datatype description_node = TruncText string nat | Plain string

definition descriptionParagraph :: "nullable_string \<Rightarrow> js_error + description_node" where
  "descriptionParagraph d =
     (case d of
        StringNull \<Rightarrow> Inr (Plain ''No description found.'')
      | StringUndefined \<Rightarrow> Inl TypeError
      | StringValue s \<Rightarrow>
          if length s > 0 then Inr (TruncText s 21) else Inr (Plain ''No description found.''))"

text \<open>
  What the returned element shows, for the sections the properties below are about
  (the header with name and rating and the year link are left out).
\<close>

record popup_view =
  className :: string
  descriptionSection :: description_node
  genreLinks :: "(string \<times> string) list"
  lengthText :: string
  playButton :: "nat \<times> jsval"

text \<open>
  The render body after the hooks. \<open>genres.length = 3\<close> writes to the array the props
  point to, so the store is returned; the write happens before the element is built, and
  stays when building it throws. \<open>encodeURIComponent\<close> is the browser's.
\<close>

definition render ::
  "(string \<Rightarrow> string) \<Rightarrow> popup_props \<Rightarrow> popup_state \<Rightarrow> store \<Rightarrow> store \<times> (js_error + popup_view)" where
  "render encodeURIComponent pr st h =
     (let d = data pr; len = length_of (duration d) in
      case h (genres d) of
        None \<Rightarrow> (h, Inl TypeError)
      | Some gs \<Rightarrow>
         (let h' = (if length gs > 3 then h(genres d \<mapsto> take 3 gs) else h) in
          case descriptionParagraph (description d) of
            Inl e \<Rightarrow> (h', Inl e)
          | Inr para \<Rightarrow>
             (case h' (genres d) of
                None \<Rightarrow> (h', Inl TypeError)
              | Some gs' \<Rightarrow>
                 (h', Inr
                   \<lparr>className = direction st,
                    descriptionSection = para,
                    genreLinks =
                      map (\<lambda>genre. (''/search?genre='' @ encodeURIComponent genre, genre)) gs',
                    lengthText = lengthParagraph len,
                    playButton = (media_id d, mediaVersions st)\<rparr>))))"

section \<open>Card\<close>

subsection \<open>State\<close>

record accent_theme =
  background :: string
  text' :: string

text \<open>
  \<open>state.hoverTimeout\<close>: the constructor does not set it, so it starts \<open>undefined\<close>;
  the handler stores a timer id or \<open>null\<close>.
\<close>

datatype timeout_ref = TimeoutUndefined | TimeoutNull | TimeoutId nat

record card_state =
  hovering :: bool
  timeout :: bool
  hoverTimeout :: timeout_ref
  posterBlob :: "string option"
  accentDone :: bool
  accent :: accent_theme

text \<open>\<open>this.state\<close> as the constructor leaves it (\<open>posterBlob: undefined\<close> is \<open>None\<close>).\<close>

definition initial_card_state :: card_state where
  "initial_card_state =
     \<lparr>hovering = False, timeout = False, hoverTimeout = TimeoutUndefined,
      posterBlob = None, accentDone = False,
      accent = \<lparr>background = ''#f7931e'', text' = ''#ffffff''\<rparr>\<rparr>"

subsection \<open>The browser around the card\<close>

text \<open>
  What the card's methods do to the world, in order: a call of \<open>renderCardPopout\<close>,
  and a palette extraction started on an image.
\<close>

datatype effect = RenderCardPopout | GetPalette string

text \<open>
  The timers that are set and have neither fired nor been cleared (id and milliseconds
  left; every one of them has \<open>renderCardPopout\<close> as its callback), the id the next
  \<open>setTimeout\<close> returns, and the number of \<open>renderCardPopout\<close> calls that wait at
  their \<open>await\<close>.
\<close>

record browser =
  card :: card_state
  timers :: "(nat \<times> nat) list"
  next_timeout_id :: nat
  awaiting_palette :: nat
  effects :: "effect list"

definition new_card :: browser where
  "new_card =
     \<lparr>card = initial_card_state, timers = [], next_timeout_id = 1,
      awaiting_palette = 0, effects = []\<rparr>"

definition setTimeout :: "nat \<Rightarrow> browser \<Rightarrow> nat \<times> browser" where
  "setTimeout delay b =
     (next_timeout_id b,
      b\<lparr>timers := timers b @ [(next_timeout_id b, delay)],
        next_timeout_id := Suc (next_timeout_id b)\<rparr>)"

definition clearTimeout :: "nat \<Rightarrow> browser \<Rightarrow> browser" where
  "clearTimeout h b = b\<lparr>timers := filter (\<lambda>(i, left). i \<noteq> h) (timers b)\<rparr>"

subsection \<open>Methods\<close>

text \<open>\<open>hoverTimeout != null\<close> is false for \<open>null\<close> and for \<open>undefined\<close>.\<close>

definition handleMouseHover :: "browser \<Rightarrow> browser" where
  "handleMouseHover b =
     (case hoverTimeout (card b) of
        TimeoutId h \<Rightarrow>
          (let b' = clearTimeout h b in
           b'\<lparr>card := (card b')\<lparr>hoverTimeout := TimeoutNull, hovering := False\<rparr>\<rparr>)
      | _ \<Rightarrow>
          (let (h, b') = setTimeout 600 b in
           b'\<lparr>card := (card b')\<lparr>hoverTimeout := TimeoutId h\<rparr>\<rparr>))"

text \<open>The last statement of \<open>renderCardPopout\<close>.\<close>

definition toggleHovering :: "browser \<Rightarrow> browser" where
  "toggleHovering b = b\<lparr>card := (card b)\<lparr>hovering := \<not> hovering (card b)\<rparr>\<rparr>"

text \<open>
  \<open>renderCardPopout\<close> up to its \<open>await\<close>, or to its end when the condition is false.
\<close>

definition renderCardPopout :: "browser \<Rightarrow> browser" where
  "renderCardPopout b =
     (let b1 = b\<lparr>effects := effects b @ [RenderCardPopout]\<rparr> in
      case posterBlob (card b1) of
        Some blob \<Rightarrow>
          if \<not> accentDone (card b1)
          then b1\<lparr>effects := effects b1 @ [GetPalette blob],
                  awaiting_palette := Suc (awaiting_palette b1)\<rparr>
          else toggleHovering b1
      | None \<Rightarrow> toggleHovering b1)"

text \<open>\<open>color.Vibrant\<close>, by its two getters.\<close>

record swatch =
  getHex :: string
  getTitleTextColor :: string

text \<open>
  The palette promise settles and one waiting call goes on: with a swatch it sets the
  accent and then toggles; with \<open>None\<close> (the promise rejects, or the palette has no
  vibrant swatch and \<open>getHex\<close> is called on \<open>null\<close>) the call throws and ends there.
\<close>

definition paletteSettles :: "swatch option \<Rightarrow> browser \<Rightarrow> browser" where
  "paletteSettles r b =
     (if awaiting_palette b = 0 then b
      else let b1 = b\<lparr>awaiting_palette := awaiting_palette b - 1\<rparr> in
        case r of
          None \<Rightarrow> b1
        | Some color \<Rightarrow>
            toggleHovering
              (b1\<lparr>card := (card b1)\<lparr>accent :=
                 \<lparr>background = getHex color, text' = getTitleTextColor color\<rparr>\<rparr>\<rparr>))"

definition onLoadPoster :: "string \<Rightarrow> browser \<Rightarrow> browser" where
  "onLoadPoster url b = b\<lparr>card := (card b)\<lparr>posterBlob := Some url\<rparr>\<rparr>"

text \<open>\<open>{this.state.hovering && <CardPopup .../>}\<close>: the popup is in the tree.\<close>

definition popupMounted :: "browser \<Rightarrow> bool" where
  "popupMounted b = hovering (card b)"

subsection \<open>Events\<close>

text \<open>
  Time passes: the timers that are due fire, oldest first, and the others have less
  time left.
\<close>

definition elapse :: "nat \<Rightarrow> browser \<Rightarrow> browser" where
  "elapse ms b =
     (let due = filter (\<lambda>(i, left). left \<le> ms) (timers b);
          waiting = map (\<lambda>(i, left). (i, left - ms))
                        (filter (\<lambda>(i, left). \<not> left \<le> ms) (timers b))
      in fold (\<lambda>_. renderCardPopout) due (b\<lparr>timers := waiting\<rparr>))"

datatype event =
    MouseEnter
  | MouseLeave
  | Elapse nat
  | PosterLoads string
  | PaletteSettles "swatch option"

fun step :: "browser \<Rightarrow> event \<Rightarrow> browser" where
  "step b MouseEnter = handleMouseHover b"
| "step b MouseLeave = handleMouseHover b"
| "step b (Elapse ms) = elapse ms b"
| "step b (PosterLoads url) = onLoadPoster url b"
| "step b (PaletteSettles r) = paletteSettles r b"

fun run :: "browser \<Rightarrow> event list \<Rightarrow> browser" where
  "run b [] = b"
| "run b (e # es) = run (step b e) es"


text \<open>No timer is set and the state holds no timer id: the card waits for an enter.\<close>

definition idle :: "browser \<Rightarrow> bool" where
  "idle b = (timers b = [] \<and> (case hoverTimeout (card b) of TimeoutId h \<Rightarrow> False | _ \<Rightarrow> True))"

text \<open>The event at which an extraction hands over a palette with a vibrant swatch.\<close>

fun extraction_completes :: "event \<Rightarrow> bool" where
  "extraction_completes (PaletteSettles (Some color)) = True"
| "extraction_completes e = False"



section \<open>Example values\<close>

definition example_rect :: rect where
  "example_rect = \<lparr>x = 100, width = 300\<rparr>"

definition example_data :: "nat \<Rightarrow> nullable_string \<Rightarrow> media_data" where
  "example_data i d =
     \<lparr>media_id = i, name = ''Alien'', description = d, genres = 0,
      year = 1979, duration = 7020\<rparr>"

definition example_props :: "nat \<Rightarrow> popup_props" where
  "example_props i = \<lparr>data = example_data i StringNull, token = ''secret''\<rparr>"

definition example_store :: store where
  "example_store = [0 \<mapsto> [''Horror'', ''Sci-Fi'', ''Thriller'', ''Mystery'']]"

definition flat_response :: "string \<Rightarrow> response" where
  "flat_response file = \<lparr>status = 200, body = Some (Obj [(''versions'', Arr [Str file])])\<rparr>"

definition seasons_response :: "string \<Rightarrow> response" where
  "seasons_response file =
     \<lparr>status = 200,
      body = Some (Obj [(''seasons'',
        Arr [Obj [(''episodes'', Arr [Obj [(''versions'', Arr [Str file])]])]])])\<rparr>"

definition error_response :: response where
  "error_response = \<lparr>status = 200, body = Some (Obj [(''error'', Str ''not found'')])\<rparr>"

definition not_found_response :: response where
  "not_found_response = \<lparr>status = 404, body = None\<rparr>"

definition example_swatch :: swatch where
  "example_swatch = \<lparr>getHex = ''#204060'', getTitleTextColor = ''#fff''\<rparr>"


definition hover_with_poster :: "event list" where
  "hover_with_poster =
     [PosterLoads ''blob:poster'', MouseEnter, Elapse 600,
      PaletteSettles (Some example_swatch), MouseLeave]"



section \<open>Properties of CardPopup\<close>

subsection \<open>Placement\<close>

text \<open>
  C6. On a freshly mounted popup the placement effect resolves the side to the left class
  exactly when \<open>x + width > innerWidth - 5\<close>, and to the right class otherwise; the
  rectangle \<open>{x: 1000, width: 300}\<close> in a viewport of 1200 goes left, \<open>{x: 100, width: 300}\<close>
  goes right.
\<close>

theorem placement_resolves_side:
  "(direction (placementEffect r V initial_popup_state) = ''card-popup-left'')
      = (x r + width r > V - 5)
   \<and> (direction (placementEffect r V initial_popup_state) = ''card-popup-right'')
      = (x r + width r \<le> V - 5)
   \<and> direction (placementEffect \<lparr>x = 1000, width = 300\<rparr> 1200 initial_popup_state)
      = ''card-popup-left''
   \<and> direction (placementEffect \<lparr>x = 100, width = 300\<rparr> 1200 initial_popup_state)
      = ''card-popup-right''"
  by (simp add: placementEffect_def initial_popup_state_def)

subsection \<open>The length\<close>

lemma numToString_small: "n < 10 \<Longrightarrow> numToString n = [digit n]"
  by (simp add: numToString.simps)

lemma numToString_large:
  "\<not> n < 10 \<Longrightarrow> numToString n = numToString (n div 10) @ [digit (n mod 10)]"
  by (subst numToString.simps) simp

lemma numToString_last: "\<exists>front. numToString n = front @ [digit (n mod 10)]"
proof (cases "n < 10")
  case True
  then have "numToString n = [] @ [digit (n mod 10)]"
    by (simp add: numToString_small)
  then show ?thesis by blast
next
  case False
  then show ?thesis
    using numToString_large [of n] by blast
qed

lemma slice_last_two: "slice_last (front @ [a, b]) 2 = [a, b]"
  by (simp add: slice_last_def)

lemma padded_field: "slice_last (''0'' @ numToString n) 2 = spec_two_digits n"
proof (cases "n < 10")
  case True
  then have "''0'' @ numToString n = [] @ [CHR ''0'', digit n]"
    by (simp add: numToString_small)
  then have "slice_last (''0'' @ numToString n) 2 = [CHR ''0'', digit n]"
    by (simp only: slice_last_two)
  with True show ?thesis
    by (simp add: spec_two_digits_def digit_def)
next
  case False
  obtain front where f: "numToString (n div 10) = front @ [digit ((n div 10) mod 10)]"
    using numToString_last by blast
  have "''0'' @ numToString n = (''0'' @ front) @ [digit ((n div 10) mod 10), digit (n mod 10)]"
    using False f by (simp add: numToString_large)
  then have "slice_last (''0'' @ numToString n) 2 = [digit ((n div 10) mod 10), digit (n mod 10)]"
    by (simp only: slice_last_two)
  then show ?thesis
    by (simp add: spec_two_digits_def)
qed

lemma spec_two_digits_padded:
  "n < 100 \<Longrightarrow>
   spec_two_digits n = (if n < 10 then ''0'' @ numToString n else numToString n)"
proof (cases "n < 10")
  case True
  then show ?thesis
    by (simp add: spec_two_digits_def numToString_small digit_def)
next
  case False
  assume "n < 100"
  then have "n div 10 < 10" by simp
  then have "numToString (n div 10) = [digit (n div 10)]" and "(n div 10) mod 10 = n div 10"
    by (simp_all add: numToString_small)
  with False show ?thesis
    by (simp add: spec_two_digits_def numToString_large)
qed

lemma lengthParagraph_fields:
  "lengthParagraph (length_of d) =
     spec_two_digits (d div 3600) @ '':'' @ spec_two_digits ((d mod 3600) div 60) @ '':''
       @ spec_two_digits ((d mod 3600) mod 60)"
  by (simp only: lengthParagraph_def length_of_def length_obj.simps padded_field)

text \<open>
  C7. For every duration \<open>d\<close> in whole seconds the rendered length is
  \<open>hh:mm:ss\<close> with \<open>hh = d div 3600\<close>, \<open>mm = (d mod 3600) div 60\<close> and
  \<open>ss = (d mod 3600) mod 60\<close>, each written with exactly two digits (zero-padded, and
  cut to the two lowest digits); 3661 gives 01:01:01, 59 gives 00:00:59 and 0 gives
  00:00:00.
\<close>

theorem duration_formatting:
  "lengthParagraph (length_of d) =
     spec_two_digits (d div 3600) @ '':'' @ spec_two_digits ((d mod 3600) div 60) @ '':''
       @ spec_two_digits ((d mod 3600) mod 60)
   \<and> lengthParagraph (length_of 3661) = ''01:01:01''
   \<and> lengthParagraph (length_of 59) = ''00:00:59''
   \<and> lengthParagraph (length_of 0) = ''00:00:00''"
proof -
  have "lengthParagraph (length_of 3661) = ''01:01:01''"
    by (simp add: lengthParagraph_fields spec_two_digits_def digit_def)
  moreover have "lengthParagraph (length_of 59) = ''00:00:59''"
    by (simp add: lengthParagraph_fields spec_two_digits_def digit_def)
  moreover have "lengthParagraph (length_of 0) = ''00:00:00''"
    by (simp add: lengthParagraph_fields spec_two_digits_def digit_def)
  ultimately show ?thesis
    using lengthParagraph_fields [of d] by blast
qed

subsection \<open>The metadata fetch\<close>

lemma responseArrives_unmounted:
  "\<not> mounted p \<Longrightarrow> hooks (responseArrives req res p) = hooks p"
  by (simp add: responseArrives_def setMediaVersions_def Let_def split: sum.splits option.splits)

lemma responseArrives_mounted:
  "mounted p \<Longrightarrow> req \<in> set (in_flight p) \<Longrightarrow>
   mediaVersions (hooks (responseArrives req res p)) =
     (case fetchContinuation res of Inr (Some v) \<Rightarrow> v | _ \<Rightarrow> mediaVersions (hooks p))"
  by (simp add: responseArrives_def setMediaVersions_def Let_def split: sum.splits option.splits)

lemma responseArrives_no_update:
  "fetchContinuation res = Inr None \<Longrightarrow> hooks (responseArrives req res p) = hooks p"
  by (simp add: responseArrives_def Let_def)

lemma popup_step_unmounted:
  "\<not> mounted p \<Longrightarrow> \<not> mounted (popup_step p e) \<and> hooks (popup_step p e) = hooks p"
  by (cases e)
     (simp_all add: propsChange_def unmountPopup_def responseArrives_def setMediaVersions_def
        Let_def split: sum.splits option.splits)

lemma popup_run_unmounted: "\<not> mounted p \<Longrightarrow> hooks (popup_run p es) = hooks p"
  unfolding popup_run_def
proof (induction es arbitrary: p)
  case Nil
  then show ?case by simp
next
  case (Cons e es)
  from Cons.prems have "\<not> mounted (popup_step p e)" and "hooks (popup_step p e) = hooks p"
    using popup_step_unmounted by blast+
  with Cons.IH [of "popup_step p e"] show ?case by simp
qed

lemma example_in_flight:
  "mounted (mountPopup (example_props 1) example_rect 1200)
   \<and> (1, ''secret'') \<in> set (in_flight (mountPopup (example_props 1) example_rect 1200))"
  by (simp add: mountPopup_def fetchEffect_def example_props_def example_data_def)

text \<open>
  C3. When the response does not have status 200, or its decoded payload has a truthy
  \<open>error\<close> property, the async function returns before it calls a setter and every
  hook of the popup, the version list among them, is what it was.
\<close>

theorem fetch_error_keeps_versions:
  assumes "status res \<noteq> 200 \<or>
     (body res = Some payload \<and> getProp payload ''error'' = Inr err \<and> truthy err)"
  shows "fetchContinuation res = Inr None \<and> hooks (responseArrives req res p) = hooks p"
proof -
  from assms have "fetchContinuation res = Inr None"
    by (auto simp: fetchContinuation_def)
  then show ?thesis
    by (simp add: responseArrives_no_update)
qed

theorem fetch_error_keeps_versions_witness:
  "status not_found_response \<noteq> 200
   \<and> hooks (responseArrives (1, ''secret'') not_found_response
        (mountPopup (example_props 1) example_rect 1200))
      = hooks (mountPopup (example_props 1) example_rect 1200)
   \<and> body error_response = Some (Obj [(''error'', Str ''not found'')])
   \<and> getProp (Obj [(''error'', Str ''not found'')]) ''error'' = Inr (Str ''not found'')
   \<and> truthy (Str ''not found'')
   \<and> hooks (responseArrives (1, ''secret'') error_response
        (mountPopup (example_props 1) example_rect 1200))
      = hooks (mountPopup (example_props 1) example_rect 1200)"
proof -
  have a: "status not_found_response \<noteq> 200"
    by (simp add: not_found_response_def)
  have b: "body error_response = Some (Obj [(''error'', Str ''not found'')])
    \<and> getProp (Obj [(''error'', Str ''not found'')]) ''error'' = Inr (Str ''not found'')
    \<and> truthy (Str ''not found'')"
    by (simp add: error_response_def)
  from a have "hooks (responseArrives (1, ''secret'') not_found_response
        (mountPopup (example_props 1) example_rect 1200))
      = hooks (mountPopup (example_props 1) example_rect 1200)"
    using fetch_error_keeps_versions [of not_found_response] by blast
  moreover from b have "hooks (responseArrives (1, ''secret'') error_response
        (mountPopup (example_props 1) example_rect 1200))
      = hooks (mountPopup (example_props 1) example_rect 1200)"
    using fetch_error_keeps_versions
      [of error_response "Obj [(''error'', Str ''not found'')]" "Str ''not found''"]
    by blast
  ultimately show ?thesis
    using a b by blast
qed

text \<open>
  C4. For a response with status 200 whose payload has no truthy \<open>error\<close>: when
  \<open>payload.seasons\<close> is truthy the version list of a mounted popup becomes
  \<open>seasons[0].episodes[0].versions\<close>, otherwise it becomes \<open>payload.versions\<close>; in both
  cases the new list is this value whatever the list was before.
\<close>

theorem fetch_shape_normalization:
  assumes "status res = 200" and "body res = Some payload"
    and "getProp payload ''error'' = Inr err" and "\<not> truthy err"
    and "getProp payload ''seasons'' = Inr seasons"
    and "mounted p" and "req \<in> set (in_flight p)"
  shows "(truthy seasons \<longrightarrow> getIndex seasons 0 = Inr season \<longrightarrow>
            getProp season ''episodes'' = Inr episodes \<longrightarrow>
            getIndex episodes 0 = Inr episode \<longrightarrow>
            getProp episode ''versions'' = Inr versions \<longrightarrow>
            mediaVersions (hooks (responseArrives req res p)) = versions)
       \<and> (\<not> truthy seasons \<longrightarrow> getProp payload ''versions'' = Inr flat \<longrightarrow>
            mediaVersions (hooks (responseArrives req res p)) = flat)"
  using assms by (simp add: responseArrives_mounted fetchContinuation_def)

theorem fetch_shape_normalization_witness:
  "mediaVersions (hooks (responseArrives (1, ''secret'') (seasons_response ''s01e01.mkv'')
      (mountPopup (example_props 1) example_rect 1200))) = Arr [Str ''s01e01.mkv'']
   \<and> mediaVersions (hooks (responseArrives (1, ''secret'') (flat_response ''alien.mkv'')
      (mountPopup (example_props 1) example_rect 1200))) = Arr [Str ''alien.mkv'']"
proof -
  let ?p = "mountPopup (example_props 1) example_rect 1200"
  let ?episode = "Obj [(''versions'', Arr [Str ''s01e01.mkv''])]"
  let ?season = "Obj [(''episodes'', Arr [?episode])]"
  have m: "mounted ?p" and r: "(1, ''secret'') \<in> set (in_flight ?p)"
    using example_in_flight by blast+
  have s: "status (seasons_response ''s01e01.mkv'') = 200"
    "body (seasons_response ''s01e01.mkv'') = Some (Obj [(''seasons'', Arr [?season])])"
    "getProp (Obj [(''seasons'', Arr [?season])]) ''error'' = Inr Undefined"
    "\<not> truthy Undefined"
    "getProp (Obj [(''seasons'', Arr [?season])]) ''seasons'' = Inr (Arr [?season])"
    by (simp_all add: seasons_response_def)
  have path: "truthy (Arr [?season])" "getIndex (Arr [?season]) 0 = Inr ?season"
    "getProp ?season ''episodes'' = Inr (Arr [?episode])"
    "getIndex (Arr [?episode]) 0 = Inr ?episode"
    "getProp ?episode ''versions'' = Inr (Arr [Str ''s01e01.mkv''])"
    by simp_all
  have f: "status (flat_response ''alien.mkv'') = 200"
    "body (flat_response ''alien.mkv'') = Some (Obj [(''versions'', Arr [Str ''alien.mkv''])])"
    "getProp (Obj [(''versions'', Arr [Str ''alien.mkv''])]) ''error'' = Inr Undefined"
    "getProp (Obj [(''versions'', Arr [Str ''alien.mkv''])]) ''seasons'' = Inr Undefined"
    "getProp (Obj [(''versions'', Arr [Str ''alien.mkv''])]) ''versions''
       = Inr (Arr [Str ''alien.mkv''])"
    by (simp_all add: flat_response_def)
  have "mediaVersions (hooks (responseArrives (1, ''secret'') (seasons_response ''s01e01.mkv'') ?p))
      = Arr [Str ''s01e01.mkv'']"
    using fetch_shape_normalization [OF s(1) s(2) s(3) s(4) s(5) m r] path by blast
  moreover have "mediaVersions (hooks (responseArrives (1, ''secret'') (flat_response ''alien.mkv'') ?p))
      = Arr [Str ''alien.mkv'']"
    using fetch_shape_normalization [OF f(1) f(2) f(3) s(4) f(4) m r] f(5) s(4) by blast
  ultimately show ?thesis by blast
qed

text \<open>
  C2, as the specification states it, fails: the popup is mounted for item 1, its props
  change to item 2, the response for item 2 arrives and then the response for item 1;
  the list shown for item 2 is then the versions of item 1.
\<close>

theorem stale_response_counterexample:
  "media_id (data (props (popup_run (mountPopup (example_props 1) example_rect 1200)
       [PropsChange (example_props 2),
        ResponseArrives (2, ''secret'') (flat_response ''aliens.mkv'')]))) = 2
   \<and> mediaVersions (hooks (popup_run (mountPopup (example_props 1) example_rect 1200)
       [PropsChange (example_props 2),
        ResponseArrives (2, ''secret'') (flat_response ''aliens.mkv'')]))
      = Arr [Str ''aliens.mkv'']
   \<and> mediaVersions (hooks (popup_run (mountPopup (example_props 1) example_rect 1200)
       [PropsChange (example_props 2),
        ResponseArrives (2, ''secret'') (flat_response ''aliens.mkv''),
        ResponseArrives (1, ''secret'') (flat_response ''alien.mkv'')]))
      = Arr [Str ''alien.mkv'']"
  by (simp add: popup_run_def mountPopup_def fetchEffect_def propsChange_def example_props_def
      example_data_def example_rect_def placementEffect_def initial_popup_state_def
      responseArrives_def setMediaVersions_def fetchContinuation_def flat_response_def)

lemma popup_step_keeps:
  assumes "mounted p" and "req \<in> set (in_flight p)" and "keeps_request req e"
  shows "mounted (popup_step p e) \<and> req \<in> set (in_flight (popup_step p e))"
proof (cases e)
  case (PropsChange pr)
  with assms show ?thesis
    by (simp add: propsChange_def fetchEffect_def)
next
  case (ResponseArrives req' res)
  with assms have "req \<noteq> req'" by auto
  then have "req \<in> set (remove1 req' (in_flight p))"
    using assms(2) by simp
  with assms(1) ResponseArrives show ?thesis
    by (simp add: responseArrives_def setMediaVersions_def Let_def assms(2)
        split: sum.splits option.splits)
next
  case Unmount
  with assms show ?thesis by simp
qed

lemma popup_run_keeps:
  "mounted p \<Longrightarrow> req \<in> set (in_flight p) \<Longrightarrow> list_all (keeps_request req) es \<Longrightarrow>
   mounted (popup_run p es) \<and> req \<in> set (in_flight (popup_run p es))"
  unfolding popup_run_def
proof (induction es arbitrary: p)
  case Nil
  then show ?case by simp
next
  case (Cons e es)
  then have "mounted (popup_step p e) \<and> req \<in> set (in_flight (popup_step p e))"
    by (intro popup_step_keeps) simp_all
  with Cons.prems(3) Cons.IH [of "popup_step p e"] show ?case by simp
qed

lemma popup_run_snoc: "popup_run p (es @ [e]) = popup_step (popup_run p es) e"
  by (simp add: popup_run_def)

lemma stale_response_after_events:
  assumes "mounted p" and "req \<in> set (in_flight p)" and "list_all (keeps_request req) es"
  shows "mediaVersions (hooks (popup_run p (es @ [ResponseArrives req res]))) =
     (case fetchContinuation res of
        Inr (Some v) \<Rightarrow> v
      | _ \<Rightarrow> mediaVersions (hooks (popup_run p es)))"
proof -
  from assms have "mounted (popup_run p es) \<and> req \<in> set (in_flight (popup_run p es))"
    by (rule popup_run_keeps)
  then show ?thesis
    by (simp add: popup_run_snoc responseArrives_mounted)
qed

lemma mountPopup_request:
  "mounted (mountPopup pr r V) \<and> (media_id (data pr), token pr) \<in> set (in_flight (mountPopup pr r V))
   \<and> mediaVersions (hooks (mountPopup pr r V)) = Arr []"
  by (simp add: mountPopup_def fetchEffect_def placementEffect_def initial_popup_state_def Let_def)

lemma propsChange_hooks: "hooks (propsChange pr p) = hooks p"
  by (simp add: propsChange_def fetchEffect_def)

lemma propsChange_props: "mounted p \<Longrightarrow> props (propsChange pr p) = pr"
  by (simp add: propsChange_def fetchEffect_def)

lemma responseArrives_props: "props (responseArrives req res p) = props p"
  by (simp add: responseArrives_def setMediaVersions_def Let_def split: sum.splits option.splits)

lemma stale_after_id_change:
  "props (popup_run (mountPopup prA r V)
       [PropsChange prB, ResponseArrives (media_id (data prA), token prA) res]) = prB
   \<and> mediaVersions (hooks (popup_run (mountPopup prA r V)
       [PropsChange prB, ResponseArrives (media_id (data prA), token prA) res])) =
     (case fetchContinuation res of Inr (Some v) \<Rightarrow> v | _ \<Rightarrow> Arr [])"
proof -
  let ?p = "mountPopup prA r V"
  let ?req = "(media_id (data prA), token prA)"
  have m: "mounted ?p" and i: "?req \<in> set (in_flight ?p)"
    and v: "mediaVersions (hooks ?p) = Arr []"
    using mountPopup_request [of prA r V] by blast+
  have k: "list_all (keeps_request ?req) [PropsChange prB]" by simp
  have "mediaVersions (hooks (popup_run ?p ([PropsChange prB] @ [ResponseArrives ?req res]))) =
     (case fetchContinuation res of
        Inr (Some v) \<Rightarrow> v
      | _ \<Rightarrow> mediaVersions (hooks (popup_run ?p [PropsChange prB])))"
    using m i k by (rule stale_response_after_events)
  moreover have "mediaVersions (hooks (popup_run ?p [PropsChange prB])) = Arr []"
    using v by (simp add: popup_run_def propsChange_hooks)
  moreover have "props (popup_run ?p [PropsChange prB, ResponseArrives ?req res]) = prB"
    using m by (simp add: popup_run_def responseArrives_props propsChange_props)
  ultimately show ?thesis by (simp split: sum.splits option.splits)
qed

text \<open>
  C2, amended. Once the popup is unmounted no later event, the arrival of a response
  included, changes its hooks. While it stays mounted a request stays in flight through
  every change of props and every other response, and the arrival of its response is
  applied whatever the props are by then: after the id has changed from A to B the list
  shown for B becomes the versions the response for A normalizes to, and stays as it was
  only when that response makes the async function return early or throw.
\<close>

theorem stale_response_applied_unless_unmounted:
  "(\<not> mounted p \<longrightarrow> hooks (popup_run p es) = hooks p)
   \<and> hooks (popup_run (unmountPopup p) es) = hooks p
   \<and> (mounted p \<longrightarrow> req \<in> set (in_flight p) \<longrightarrow>
        mediaVersions (hooks (responseArrives req res p)) =
          (case fetchContinuation res of
             Inr (Some v) \<Rightarrow> v
           | _ \<Rightarrow> mediaVersions (hooks p)))
   \<and> (mounted p \<longrightarrow> req \<in> set (in_flight p) \<longrightarrow> list_all (keeps_request req) es' \<longrightarrow>
        mounted (popup_run p es') \<and> req \<in> set (in_flight (popup_run p es'))
        \<and> mediaVersions (hooks (popup_run p (es' @ [ResponseArrives req res]))) =
            (case fetchContinuation res of
               Inr (Some v) \<Rightarrow> v
             | _ \<Rightarrow> mediaVersions (hooks (popup_run p es'))))
   \<and> props (popup_run (mountPopup prA r V)
         [PropsChange prB, ResponseArrives (media_id (data prA), token prA) res]) = prB
   \<and> mediaVersions (hooks (popup_run (mountPopup prA r V)
         [PropsChange prB, ResponseArrives (media_id (data prA), token prA) res])) =
       (case fetchContinuation res of Inr (Some v) \<Rightarrow> v | _ \<Rightarrow> Arr [])"
proof -
  have "hooks (popup_run (unmountPopup p) es) = hooks (unmountPopup p)"
    by (rule popup_run_unmounted) (simp add: unmountPopup_def)
  then have u: "hooks (popup_run (unmountPopup p) es) = hooks p"
    by (simp add: unmountPopup_def)
  show ?thesis
    using u popup_run_unmounted [of p es] responseArrives_mounted [of p req res]
      popup_run_keeps [of p req es'] stale_response_after_events [of p req es' res]
      stale_after_id_change [of prA r V prB res]
    by blast
qed

theorem stale_response_applied_unless_unmounted_witness:
  "hooks (popup_run (unmountPopup (mountPopup (example_props 1) example_rect 1200))
       [ResponseArrives (1, ''secret'') (flat_response ''alien.mkv'')])
     = hooks (mountPopup (example_props 1) example_rect 1200)
   \<and> mediaVersions (hooks (responseArrives (1, ''secret'') (flat_response ''alien.mkv'')
        (mountPopup (example_props 1) example_rect 1200))) = Arr [Str ''alien.mkv'']
   \<and> props (popup_run (mountPopup (example_props 1) example_rect 1200)
        [PropsChange (example_props 2),
         ResponseArrives (1, ''secret'') (flat_response ''alien.mkv'')]) = example_props 2
   \<and> mediaVersions (hooks (popup_run (mountPopup (example_props 1) example_rect 1200)
        [PropsChange (example_props 2),
         ResponseArrives (1, ''secret'') (flat_response ''alien.mkv'')]))
      = Arr [Str ''alien.mkv'']
   \<and> mediaVersions (hooks (popup_run (mountPopup (example_props 1) example_rect 1200)
        [PropsChange (example_props 2),
         ResponseArrives (2, ''secret'') (flat_response ''aliens.mkv''),
         ResponseArrives (1, ''secret'') (flat_response ''alien.mkv'')]))
      = Arr [Str ''alien.mkv'']"
proof -
  let ?p = "mountPopup (example_props 1) example_rect 1200"
  have m: "mounted ?p" and r: "(1, ''secret'') \<in> set (in_flight ?p)"
    using example_in_flight by blast+
  have c: "fetchContinuation (flat_response ''alien.mkv'') = Inr (Some (Arr [Str ''alien.mkv'']))"
    by (simp add: fetchContinuation_def flat_response_def)
  have k: "list_all (keeps_request (1, ''secret''))
      [PropsChange (example_props 2),
       ResponseArrives (2, ''secret'') (flat_response ''aliens.mkv'')]"
    by simp
  have i: "media_id (data (example_props 1)) = 1" "token (example_props 1) = ''secret''"
    by (simp_all add: example_props_def example_data_def)
  show ?thesis
    using stale_response_applied_unless_unmounted
      [where p = ?p and es = "[ResponseArrives (1, ''secret'') (flat_response ''alien.mkv'')]"
         and req = "(1, ''secret'')" and res = "flat_response ''alien.mkv''"
         and es' = "[PropsChange (example_props 2),
                     ResponseArrives (2, ''secret'') (flat_response ''aliens.mkv'')]"
         and prA = "example_props 1" and r = example_rect and V = 1200
         and prB = "example_props 2"]
      m r c k i
    by simp
qed

subsection \<open>Rendering\<close>

lemma render_store:
  "h (genres (data pr)) = Some gs \<Longrightarrow>
   fst (render enc pr st h) = (if length gs > 3 then h(genres (data pr) \<mapsto> take 3 gs) else h)"
  by (simp add: render_def Let_def split: sum.splits option.splits)

lemma render_genres:
  "h (genres (data pr)) = Some gs \<Longrightarrow> snd (render enc pr st h) = Inr v \<Longrightarrow>
   map snd (genreLinks v) = take 3 gs"
  by (auto simp: render_def Let_def comp_def split: sum.splits option.splits if_splits)

lemma render_undefined_description:
  "description (data pr) = StringUndefined \<Longrightarrow> snd (render enc pr st h) = Inl TypeError"
  by (simp add: render_def Let_def descriptionParagraph_def split: option.splits)

lemma render_placeholder:
  "h (genres (data pr)) = Some gs \<Longrightarrow>
   description (data pr) = StringNull \<or> description (data pr) = StringValue [] \<Longrightarrow>
   \<exists>v. snd (render enc pr st h) = Inr v \<and> descriptionSection v = Plain ''No description found.''"
  by (auto simp: render_def Let_def descriptionParagraph_def split: option.splits)

text \<open>
  C5. The render shows three genres, but it cuts the array it was given: a caller that
  passed four genres holds a list of three after the render.
\<close>

theorem genres_truncation_cuts_callers_list:
  "example_store 0 = Some [''Horror'', ''Sci-Fi'', ''Thriller'', ''Mystery'']
   \<and> fst (render (\<lambda>s. s) \<lparr>data = example_data 1 StringNull, token = ''secret''\<rparr>
          initial_popup_state example_store) 0 = Some [''Horror'', ''Sci-Fi'', ''Thriller'']"
  by (simp add: render_def Let_def example_store_def example_data_def descriptionParagraph_def)

text \<open>
  C10. With a genre array in place, a description that is \<open>null\<close> or the empty string
  renders the placeholder paragraph; a description that is \<open>undefined\<close> makes the render
  throw a TypeError, whatever the rest of the props.
\<close>

theorem description_fallback_partial:
  "(h (genres (data pr)) = Some gs \<longrightarrow>
      description (data pr) = StringNull \<or> description (data pr) = StringValue [] \<longrightarrow>
      (\<exists>v. snd (render enc pr st h) = Inr v
          \<and> descriptionSection v = Plain ''No description found.''))
   \<and> (description (data pr) = StringUndefined \<longrightarrow> snd (render enc pr st h) = Inl TypeError)"
  using render_placeholder [of h pr gs enc st] render_undefined_description [of pr enc st h]
  by blast

theorem description_fallback_partial_witness:
  "(\<exists>v. snd (render (\<lambda>s. s) \<lparr>data = example_data 1 (StringValue []), token = ''secret''\<rparr>
             initial_popup_state example_store) = Inr v
       \<and> descriptionSection v = Plain ''No description found.'')
   \<and> snd (render (\<lambda>s. s) \<lparr>data = example_data 1 StringUndefined, token = ''secret''\<rparr>
             initial_popup_state example_store) = Inl TypeError"
proof -
  have a: "example_store (genres (data \<lparr>data = example_data 1 (StringValue []), token = ''secret''\<rparr>))
      = Some [''Horror'', ''Sci-Fi'', ''Thriller'', ''Mystery'']"
    by (simp add: example_store_def example_data_def)
  have b: "description (data \<lparr>data = example_data 1 (StringValue []), token = ''secret''\<rparr>)
      = StringValue []"
    by (simp add: example_data_def)
  have c: "description (data \<lparr>data = example_data 1 StringUndefined, token = ''secret''\<rparr>)
      = StringUndefined"
    by (simp add: example_data_def)
  show ?thesis
    using description_fallback_partial
        [of example_store "\<lparr>data = example_data 1 (StringValue []), token = ''secret''\<rparr>"
            "[''Horror'', ''Sci-Fi'', ''Thriller'', ''Mystery'']" "\<lambda>s. s" initial_popup_state]
      description_fallback_partial
        [of example_store "\<lparr>data = example_data 1 StringUndefined, token = ''secret''\<rparr>"
            "[]" "\<lambda>s. s" initial_popup_state]
      a b c
    by blast
qed

section \<open>Properties of Card\<close>

subsection \<open>Invariants of the methods\<close>


lemma renderCardPopout_accent: "accent (card (renderCardPopout b)) = accent (card b)"
  by (simp add: renderCardPopout_def toggleHovering_def Let_def split: option.splits)

lemma renderCardPopout_accentDone: "accentDone (card (renderCardPopout b)) = accentDone (card b)"
  by (simp add: renderCardPopout_def toggleHovering_def Let_def split: option.splits)

lemma fold_renderCardPopout_accent:
  "accent (card (fold (\<lambda>_. renderCardPopout) due b)) = accent (card b)"
  by (induction due arbitrary: b) (simp_all add: renderCardPopout_accent)

lemma fold_renderCardPopout_accentDone:
  "accentDone (card (fold (\<lambda>_. renderCardPopout) due b)) = accentDone (card b)"
  by (induction due arbitrary: b) (simp_all add: renderCardPopout_accentDone)

lemma step_accent:
  "\<not> extraction_completes e \<Longrightarrow> accent (card (step b e)) = accent (card b)"
proof (cases e)
  case (Elapse ms)
  then show ?thesis
    by (simp add: elapse_def Let_def fold_renderCardPopout_accent)
next
  case (PaletteSettles r)
  assume "\<not> extraction_completes e"
  with PaletteSettles have "r = None" by (cases r) simp_all
  with PaletteSettles show ?thesis
    by (simp add: paletteSettles_def Let_def)
qed (simp_all add: handleMouseHover_def clearTimeout_def setTimeout_def onLoadPoster_def Let_def
       split: timeout_ref.splits)

lemma run_accent:
  "\<forall>e \<in> set es. \<not> extraction_completes e \<Longrightarrow> accent (card (run b es)) = accent (card b)"
  by (induction es arbitrary: b) (simp_all add: step_accent)

lemma step_accentDone: "accentDone (card (step b e)) = accentDone (card b)"
  by (cases e)
     (simp_all add: handleMouseHover_def clearTimeout_def setTimeout_def onLoadPoster_def
        paletteSettles_def toggleHovering_def elapse_def fold_renderCardPopout_accentDone Let_def
        split: timeout_ref.splits option.splits)

lemma run_accentDone: "accentDone (card (run b es)) = accentDone (card b)"
  by (induction es arbitrary: b) (simp_all add: step_accentDone)

lemma renderCardPopout_extracts:
  "posterBlob (card b) = Some url \<Longrightarrow> \<not> accentDone (card b) \<Longrightarrow>
   effects (renderCardPopout b) = effects b @ [RenderCardPopout, GetPalette url]
   \<and> awaiting_palette (renderCardPopout b) = Suc (awaiting_palette b)
   \<and> card (renderCardPopout b) = card b"
  by (simp add: renderCardPopout_def Let_def)

lemma renderCardPopout_no_poster:
  "posterBlob (card b) = None \<Longrightarrow>
   renderCardPopout b =
     b\<lparr>effects := effects b @ [RenderCardPopout],
       card := (card b)\<lparr>hovering := \<not> hovering (card b)\<rparr>\<rparr>"
  by (simp add: renderCardPopout_def toggleHovering_def Let_def)











subsection \<open>Brief hovers\<close>












subsection \<open>The claims about the card\<close>

lemmas card_defs = new_card_def initial_card_state_def handleMouseHover_def setTimeout_def
  clearTimeout_def renderCardPopout_def toggleHovering_def paletteSettles_def onLoadPoster_def
  popupMounted_def elapse_def idle_def Let_def








text \<open>
  C8. As long as no extraction has completed with a palette, the accent of the card is
  the fallback \<open>{background: "#f7931e", text: "#ffffff"}\<close>.
\<close>

theorem accent_default_until_extraction:
  "\<forall>e \<in> set es. \<not> extraction_completes e \<Longrightarrow>
   accent (card (run new_card es)) = \<lparr>background = ''#f7931e'', text' = ''#ffffff''\<rparr>"
  using run_accent [of es new_card] by (simp add: new_card_def initial_card_state_def)

theorem accent_default_until_extraction_witness:
  "\<not> extraction_completes (PosterLoads ''blob:poster'')
   \<and> \<not> extraction_completes MouseEnter
   \<and> \<not> extraction_completes (Elapse 600)
   \<and> \<not> extraction_completes (PaletteSettles None)
   \<and> \<not> extraction_completes MouseLeave
   \<and> accent (card (run new_card
        [PosterLoads ''blob:poster'', MouseEnter, Elapse 600, PaletteSettles None, MouseLeave]))
      = \<lparr>background = ''#f7931e'', text' = ''#ffffff''\<rparr>"
proof -
  have h: "\<forall>e \<in> set [PosterLoads ''blob:poster'', MouseEnter, Elapse 600, PaletteSettles None, MouseLeave].
      \<not> extraction_completes e"
    by simp
  show ?thesis
    using accent_default_until_extraction [OF h] by simp
qed

lemma hover_with_poster_run:
  "posterBlob (card (run new_card hover_with_poster)) = Some ''blob:poster''
   \<and> effects (run new_card hover_with_poster) = [RenderCardPopout, GetPalette ''blob:poster'']
   \<and> accent (card (run new_card hover_with_poster)) = \<lparr>background = ''#204060'', text' = ''#fff''\<rparr>"
  by (simp add: hover_with_poster_def example_swatch_def card_defs)

text \<open>
  C9. \<open>accentDone\<close> is false in every reachable state, so every call of
  \<open>renderCardPopout\<close> made while the poster is loaded starts an extraction, also after
  one has completed.
\<close>

theorem accentDone_never_set:
  "\<not> accentDone (card (run new_card es))
   \<and> (posterBlob (card (run new_card es)) = Some url \<longrightarrow>
        effects (renderCardPopout (run new_card es))
          = effects (run new_card es) @ [RenderCardPopout, GetPalette url]
        \<and> awaiting_palette (renderCardPopout (run new_card es))
          = Suc (awaiting_palette (run new_card es)))"
proof -
  have d: "\<not> accentDone (card (run new_card es))"
    by (simp add: run_accentDone new_card_def initial_card_state_def)
  then show ?thesis
    using renderCardPopout_extracts [of "run new_card es" url] by blast
qed

theorem accentDone_never_set_witness:
  "posterBlob (card (run new_card hover_with_poster)) = Some ''blob:poster''
   \<and> accent (card (run new_card hover_with_poster)) = \<lparr>background = ''#204060'', text' = ''#fff''\<rparr>
   \<and> \<not> accentDone (card (run new_card hover_with_poster))
   \<and> effects (renderCardPopout (run new_card hover_with_poster))
       = [RenderCardPopout, GetPalette ''blob:poster'', RenderCardPopout, GetPalette ''blob:poster'']"
  using accentDone_never_set [of hover_with_poster "''blob:poster''"] hover_with_poster_run
  by simp

end
